theory Spec2Isabelle
  imports Complex_Main
begin

section \<open>Values, variables and the interface of the least-squares engine\<close>

text \<open>
  The module \<^verbatim>\<open>jaxmp/extras/solve_ik.py\<close> holds two entry points, \<^verbatim>\<open>solve_ik\<close> and
  \<^verbatim>\<open>solve_ik_with_coll\<close>. Both build a list of factors, declare the variables, and make
  one call of the least-squares engine (\<^verbatim>\<open>jaxls\<close>), from whose solution they read the
  result. Arrays (\<^verbatim>\<open>jnp.ndarray\<close>) are lists of numbers; Python floats are modelled as
  reals: the module never computes with them, it only copies them into the factors and
  into the engine's configuration. (The rounding of a float argument to single precision
  when \<^verbatim>\<open>solve_ik\<close> is entered is not modelled.)
\<close>

type_synonym array = "real list"

text \<open>\<^verbatim>\<open>jaxlie.SE3\<close>: a rigid transform stored as the seven numbers \<^verbatim>\<open>wxyz_xyz\<close>
  (unit quaternion, then translation). \<^verbatim>\<open>jaxlie.SE3.identity()\<close> is the quaternion
  \<open>(1, 0, 0, 0)\<close> with the zero translation.\<close>

datatype SE3 = SE3 (wxyz_xyz: array)

definition SE3_identity :: SE3 where
  "SE3_identity = SE3 [1, 0, 0, 0, 0, 0, 0]"

text \<open>The value of a variable is an array (joint variables) or a transform (base pose).\<close>

datatype val = ArrayVal array | SE3Val SE3

text \<open>A variable type is a subclass of \<^verbatim>\<open>jaxls.Var\<close>; what this module relies on is the
  class itself (here: its name) and the default value the class was declared with.
  A variable is a variable type applied to an index, as in \<^verbatim>\<open>JointVar(joint_var_idx)\<close>.\<close>

datatype VarClass = VarClass (cls_name: string) (cls_default: val)

datatype Var = Var (var_cls: VarClass) (var_id: int)

text \<open>An entry of the list given to \<^verbatim>\<open>jaxls.VarValues.make\<close>: a bare variable, or the
  result of \<^verbatim>\<open>v.with_value(x)\<close>.\<close>

datatype VarOrValue = BareVar Var | VarWithValue Var val

definition with_value :: "Var \<Rightarrow> val \<Rightarrow> VarOrValue" where
  "with_value v x = VarWithValue v x"

text \<open>\<^verbatim>\<open>jaxls.VarValues.make\<close>: every variable with its value; a bare variable takes the
  default value of its type.\<close>

fun VarValues_entry :: "VarOrValue \<Rightarrow> Var \<times> val" where
  "VarValues_entry (BareVar v) = (v, cls_default (var_cls v))"
| "VarValues_entry (VarWithValue v x) = (v, x)"

definition VarValues_make :: "VarOrValue list \<Rightarrow> (Var \<times> val) list" where
  "VarValues_make vs = map VarValues_entry vs"

text \<open>The \<^verbatim>\<open>Literal\<close> type of \<^verbatim>\<open>solver_type\<close>.\<close>

datatype linear_solver = cholmod | conjugate_gradient | dense_cholesky

text \<open>\<^verbatim>\<open>jaxls.TrustRegionConfig\<close>: only \<^verbatim>\<open>lambda_initial\<close> is ever set by this module;
  \<open>None\<close> stands for a field left to the engine's default.\<close>

datatype TrustRegionConfig = TrustRegionConfig (lambda_initial: "real option")

text \<open>\<^verbatim>\<open>jaxls.TerminationConfig(gradient_tolerance, parameter_tolerance, max_iterations)\<close>,
  the three fields in this order.\<close>

datatype TerminationConfig = TerminationConfig real real int

fun term_gradient_tolerance :: "TerminationConfig \<Rightarrow> real" where
  "term_gradient_tolerance (TerminationConfig g p m) = g"

fun term_parameter_tolerance :: "TerminationConfig \<Rightarrow> real" where
  "term_parameter_tolerance (TerminationConfig g p m) = p"

fun term_max_iterations :: "TerminationConfig \<Rightarrow> int" where
  "term_max_iterations (TerminationConfig g p m) = m"

section \<open>The kinematic model and the factors\<close>

text \<open>
  Modelled from the spec: \<^verbatim>\<open>JaxKinTree\<close> (\<^verbatim>\<open>jaxmp/kinematics.py\<close>) is not among the
  sources. The entry points read \<^verbatim>\<open>kin.num_actuated_joints\<close> only; the limits are the ones
  the spec's kinematic-model interface lists (\<^verbatim>\<open>joint_limits() \<rightarrow> (lower[], upper[],
  velocity_bound[])\<close>) and are used by the residuals of the last section alone.
\<close>

record JaxKinTree =
  num_actuated_joints :: nat
  limits_lower :: array
  limits_upper :: array
  joint_vel_limit :: array

text \<open>
  The last argument of \<^verbatim>\<open>limit_vel_cost_factor\<close> is passed in two ways: \<^verbatim>\<open>solve_ik\<close> passes
  five positional arguments and then \<^verbatim>\<open>prev_cfg=initial_pose\<close> by keyword;
  \<^verbatim>\<open>solve_ik_with_coll\<close> passes the same five and then \<^verbatim>\<open>initial_pose\<close> as a sixth
  positional argument.
\<close>

datatype PrevCfgArg = prev_cfg_keyword array | sixth_positional array

text \<open>The sixth parameter of \<^verbatim>\<open>limit_vel_cost_factor\<close> is read as \<^verbatim>\<open>prev_cfg\<close>: it is the
  parameter that follows the five which both calls pass by position, and \<^verbatim>\<open>prev_cfg\<close> is
  not one of these five.\<close>

fun prev_cfg_value :: "PrevCfgArg \<Rightarrow> array" where
  "prev_cfg_value (prev_cfg_keyword p) = p"
| "prev_cfg_value (sixth_positional p) = p"

text \<open>
  The factors are built by the static methods of \<^verbatim>\<open>RobotFactors\<close>
  (\<^verbatim>\<open>jaxmp/robot_factors.py\<close>, not among the sources). A factor is modelled as the call
  that builds it: one constructor per method, carrying the arguments in the order the
  entry points pass them; what a builder does with them, and whether it raises, is
  left to the engine that is given the factor. The two keyword arguments of \<^verbatim>\<open>ik_cost_factor\<close>,
  \<^verbatim>\<open>BaseConstrainedSE3VarType\<close> and \<^verbatim>\<open>base_se3_var_idx\<close>, are options: \<open>None\<close> is Python's
  \<^verbatim>\<open>None\<close>, and also stands for the keyword left out (as \<^verbatim>\<open>solve_ik_with_coll\<close> does).
  The robot's collision model (\<^verbatim>\<open>RobotColl\<close>) and an obstacle (\<^verbatim>\<open>CollGeom\<close>) are opaque
  to this module: the type parameters \<open>'rc\<close> and \<open>'cg\<close>.
\<close>

datatype ('rc, 'cg) Factor =
    limit_cost_factor VarClass int JaxKinTree array
  | limit_vel_cost_factor VarClass int JaxKinTree real array PrevCfgArg
  | rest_cost_factor VarClass int array
  | ik_cost_factor VarClass int JaxKinTree "SE3 list" "int list" array
      "VarClass option" "int option"
  | manipulability_cost_factor VarClass int JaxKinTree "int list" real
  | self_coll_factor VarClass int JaxKinTree 'rc real real
  | world_coll_factor VarClass int JaxKinTree 'rc 'cg real real

text \<open>The seven factor kinds of the spec's data model.\<close>

datatype FactorKind =
  PoseMatch | JointLimit | JointVelLimit | RestPose | Manipulability
  | SelfCollision | WorldCollision

fun factor_kind :: "('rc, 'cg) Factor \<Rightarrow> FactorKind" where
  "factor_kind (limit_cost_factor V i k w) = JointLimit"
| "factor_kind (limit_vel_cost_factor V i k dt w p) = JointVelLimit"
| "factor_kind (rest_cost_factor V i w) = RestPose"
| "factor_kind (ik_cost_factor V i k T js w B b) = PoseMatch"
| "factor_kind (manipulability_cost_factor V i k js w) = Manipulability"
| "factor_kind (self_coll_factor V i k rc eta w) = SelfCollision"
| "factor_kind (world_coll_factor V i k rc cg eta w) = WorldCollision"

text \<open>The joint variable a factor is attached to: its first two arguments.\<close>

fun factor_joint_var :: "('rc, 'cg) Factor \<Rightarrow> Var" where
  "factor_joint_var (limit_cost_factor V i k w) = Var V i"
| "factor_joint_var (limit_vel_cost_factor V i k dt w p) = Var V i"
| "factor_joint_var (rest_cost_factor V i w) = Var V i"
| "factor_joint_var (ik_cost_factor V i k T js w B b) = Var V i"
| "factor_joint_var (manipulability_cost_factor V i k js w) = Var V i"
| "factor_joint_var (self_coll_factor V i k rc eta w) = Var V i"
| "factor_joint_var (world_coll_factor V i k rc cg eta w) = Var V i"

text \<open>The previous configuration a joint-velocity-limit factor was given.\<close>

fun factor_prev_cfg :: "('rc, 'cg) Factor \<Rightarrow> array option" where
  "factor_prev_cfg (limit_vel_cost_factor V i k dt w p) = Some (prev_cfg_value p)"
| "factor_prev_cfg f = None"

text \<open>The weights a factor was given: a vector, or the one scalar weight.\<close>

fun factor_weights :: "('rc, 'cg) Factor \<Rightarrow> array" where
  "factor_weights (limit_cost_factor V i k w) = w"
| "factor_weights (limit_vel_cost_factor V i k dt w p) = w"
| "factor_weights (rest_cost_factor V i w) = w"
| "factor_weights (ik_cost_factor V i k T js w B b) = w"
| "factor_weights (manipulability_cost_factor V i k js w) = [w]"
| "factor_weights (self_coll_factor V i k rc eta w) = [w]"
| "factor_weights (world_coll_factor V i k rc cg eta w) = [w]"

section \<open>The call of the engine\<close>

text \<open>
  Everything an entry point hands to the engine: the arguments of
  \<^verbatim>\<open>jaxls.FactorGraph.make(factors, variables, use_onp=...)\<close> and of
  \<^verbatim>\<open>graph.solve(linear_solver=..., initial_vals=..., trust_region=..., termination=...,
  verbose=...)\<close>. \<open>linear_solver = None\<close> is the keyword left out; the keyword
  \<^verbatim>\<open>termination\<close> is the field \<open>termination_config\<close>.
\<close>

record ('rc, 'cg) solve_call =
  factors :: "('rc, 'cg) Factor list"
  variables :: "Var list"
  use_onp :: bool
  linear_solver :: "linear_solver option"
  initial_vals :: "(Var \<times> val) list"
  trust_region :: TrustRegionConfig
  termination_config :: TerminationConfig
  verbose :: bool

text \<open>
  The engine is external, so it is a parameter of the entry points: a function from the
  call to either an error (an exception raised while the factors are built, the graph
  is made or the problem is solved, which the entry points do not catch) or a solution.
  A solution is read by \<^verbatim>\<open>solution[v]\<close>, a lookup function.
\<close>

type_synonym solution = "Var \<Rightarrow> val"

type_synonym ('rc, 'cg, 'e) engine = "('rc, 'cg) solve_call \<Rightarrow> 'e + solution"

section \<open>\<^verbatim>\<open>solve_ik\<close>\<close>

text \<open>The parameters that the two entry points have in common, under the names of the
  source.\<close>

record ik_args =
  kin :: JaxKinTree
  target_joint_indices :: "int list"
  initial_pose :: array
  rest_weight :: real
  limit_weight :: real

text \<open>The other parameters of \<^verbatim>\<open>solve_ik\<close>. The source tests \<^verbatim>\<open>pose_var_idx is not None\<close>,
  so \<^verbatim>\<open>pose_var_idx\<close> is an optional integer.\<close>

record solve_ik_args = ik_args +
  target_pose :: "SE3 list"
  JointVar :: VarClass
  ik_weight :: array
  joint_var_idx :: int
  joint_vel_weight :: real
  dt :: real
  use_manipulability :: bool
  manipulability_weight :: real
  solver_type :: linear_solver
  ConstrainedSE3Var :: "VarClass option"
  pose_var_idx :: "int option"
  max_iterations :: int

text \<open>A call with the six positional arguments only: every keyword takes the default of
  the signature.\<close>

definition solve_ik_defaults ::
  "JaxKinTree \<Rightarrow> SE3 list \<Rightarrow> int list \<Rightarrow> array \<Rightarrow> VarClass \<Rightarrow> array \<Rightarrow> solve_ik_args" where
  "solve_ik_defaults k T js q0 V w =
     \<lparr> kin = k, target_joint_indices = js, initial_pose = q0,
       rest_weight = 1 / 1000, limit_weight = 100,
       target_pose = T, JointVar = V, ik_weight = w,
       joint_var_idx = 0, joint_vel_weight = 0, dt = 1 / 100,
       use_manipulability = False, manipulability_weight = 1 / 1000,
       solver_type = conjugate_gradient, ConstrainedSE3Var = None,
       pose_var_idx = Some 0, max_iterations = 50 \<rparr>"

text \<open>Lines 65 to 109: the three factors of the list literal, the pose-match factor
  appended, the manipulability factor appended when asked for.\<close>

definition solve_ik_factors :: "solve_ik_args \<Rightarrow> ('rc, 'cg) Factor list" where
  "solve_ik_factors a =
     [ limit_cost_factor (JointVar a) (joint_var_idx a) (kin a)
         (replicate (num_actuated_joints (kin a)) (limit_weight a)),
       limit_vel_cost_factor (JointVar a) (joint_var_idx a) (kin a) (dt a)
         (replicate (num_actuated_joints (kin a)) (joint_vel_weight a))
         (prev_cfg_keyword (initial_pose a)),
       rest_cost_factor (JointVar a) (joint_var_idx a)
         (replicate (num_actuated_joints (kin a)) (rest_weight a)) ]
     @ [ ik_cost_factor (JointVar a) (joint_var_idx a) (kin a) (target_pose a)
           (target_joint_indices a) (ik_weight a) (ConstrainedSE3Var a) (pose_var_idx a) ]
     @ (if use_manipulability a
        then [ manipulability_cost_factor (JointVar a) (joint_var_idx a) (kin a)
                 (target_joint_indices a) (manipulability_weight a) ]
        else [])"

text \<open>Lines 111 to 117: the variables, and the list given to \<^verbatim>\<open>VarValues.make\<close>.\<close>

definition solve_ik_joint_vars :: "solve_ik_args \<Rightarrow> Var list" where
  "solve_ik_joint_vars a =
     [Var (JointVar a) (joint_var_idx a)]
     @ (case (ConstrainedSE3Var a, pose_var_idx a) of
          (Some C, Some p) \<Rightarrow> [Var C p]
        | _ \<Rightarrow> [])"

definition solve_ik_joint_var_values :: "solve_ik_args \<Rightarrow> VarOrValue list" where
  "solve_ik_joint_var_values a =
     [with_value (Var (JointVar a) (joint_var_idx a)) (ArrayVal (initial_pose a))]
     @ (case (ConstrainedSE3Var a, pose_var_idx a) of
          (Some C, Some p) \<Rightarrow> [BareVar (Var C p)]
        | _ \<Rightarrow> [])"

text \<open>Lines 119 to 134: what is handed to the engine.\<close>

definition solve_ik_call :: "solve_ik_args \<Rightarrow> ('rc, 'cg) solve_call" where
  "solve_ik_call a =
     \<lparr> factors = solve_ik_factors a,
       variables = solve_ik_joint_vars a,
       use_onp = False,
       linear_solver = Some (solver_type a),
       initial_vals = VarValues_make (solve_ik_joint_var_values a),
       trust_region = TrustRegionConfig None,
       termination_config = TerminationConfig (1 / 100000) (1 / 100000) (max_iterations a),
       verbose = False \<rparr>"

text \<open>Lines 136 to 142: the result is read from the solution.\<close>

definition solve_ik_result :: "solve_ik_args \<Rightarrow> solution \<Rightarrow> val \<times> val" where
  "solve_ik_result a sol =
     (let base_pose = (case ConstrainedSE3Var a of
                         Some C \<Rightarrow> sol (Var C 0)
                       | None \<Rightarrow> SE3Val SE3_identity);
          joints = sol (Var (JointVar a) 0)
      in (base_pose, joints))"

text \<open>
  \<^verbatim>\<open>solve_ik\<close> is decorated with \<^verbatim>\<open>@jdc.jit\<close>, and its three integer parameters
  \<^verbatim>\<open>joint_var_idx\<close>, \<^verbatim>\<open>pose_var_idx\<close> and \<^verbatim>\<open>max_iterations\<close> are not static: when the function
  is entered each becomes a 32-bit integer (the default precision), and a Python integer
  outside that range raises \<^verbatim>\<open>OverflowError\<close> before a line of the body runs.
  \<^verbatim>\<open>None\<close> for \<^verbatim>\<open>pose_var_idx\<close> has nothing to convert.
\<close>

definition in_int32 :: "int \<Rightarrow> bool" where
  "in_int32 i = (- 2147483648 \<le> i \<and> i \<le> 2147483647)"

definition jit_args_ok :: "solve_ik_args \<Rightarrow> bool" where
  "jit_args_ok a =
     (in_int32 (joint_var_idx a)
      \<and> (case pose_var_idx a of None \<Rightarrow> True | Some p \<Rightarrow> in_int32 p)
      \<and> in_int32 (max_iterations a))"

text \<open>The errors of \<^verbatim>\<open>solve_ik\<close>: its own, or one raised by the engine.\<close>

datatype 'e error = OverflowError | Raised 'e

text \<open>What \<^verbatim>\<open>solve_ik\<close> makes of the engine's answer.\<close>

definition solve_ik_outcome :: "solve_ik_args \<Rightarrow> 'e + solution \<Rightarrow> 'e error + val \<times> val" where
  "solve_ik_outcome a r =
     (case r of
        Inl e \<Rightarrow> Inl (Raised e)
      | Inr sol \<Rightarrow> Inr (solve_ik_result a sol))"

definition solve_ik ::
  "('rc, 'cg, 'e) engine \<Rightarrow> solve_ik_args \<Rightarrow> 'e error + val \<times> val" where
  "solve_ik solve a =
     (if \<not> jit_args_ok a then Inl OverflowError
      else solve_ik_outcome a (solve (solve_ik_call a)))"

section \<open>\<^verbatim>\<open>solve_ik_with_coll\<close>\<close>

text \<open>
  \<^verbatim>\<open>RobotFactors.get_var_class\<close> (\<^verbatim>\<open>jaxmp/robot_factors.py\<close>) is not among the sources, and
  the spec does not describe it. \<^verbatim>\<open>solve_ik_with_coll\<close> calls it as
  \<^verbatim>\<open>get_var_class(kin, initial_pose)\<close> and uses the class it returns as the type of the
  joint variable. It is a parameter of the entry point: a function that returns a
  variable type or raises.
\<close>

type_synonym 'e var_class_maker = "JaxKinTree \<Rightarrow> array \<Rightarrow> 'e + VarClass"

record ('rc, 'cg) solve_ik_with_coll_args = ik_args +
  target_poses :: "SE3 list"
  robot_coll :: 'rc
  world_coll :: "'cg list"
  pos_weight :: real
  rot_weight :: real
  self_coll_weight :: real
  world_coll_weight :: real

text \<open>A call with the six positional arguments only.\<close>

definition solve_ik_with_coll_defaults ::
  "JaxKinTree \<Rightarrow> int list \<Rightarrow> SE3 list \<Rightarrow> 'rc \<Rightarrow> 'cg list \<Rightarrow> array
     \<Rightarrow> ('rc, 'cg) solve_ik_with_coll_args" where
  "solve_ik_with_coll_defaults k js T rc wc q0 =
     \<lparr> kin = k, target_joint_indices = js, initial_pose = q0,
       rest_weight = 1 / 1000, limit_weight = 100,
       target_poses = T, robot_coll = rc, world_coll = wc,
       pos_weight = 5, rot_weight = 1,
       self_coll_weight = 5, world_coll_weight = 10 \<rparr>"

text \<open>Lines 162 to 212, for the variable type \<open>JointVar'\<close> that \<^verbatim>\<open>get_var_class\<close> returned.
  The list starts empty, is extended by the four factors of the literal, then by the
  self-collision factor, then by one world-collision factor for each element of
  \<^verbatim>\<open>world_coll\<close>, in order.\<close>

definition solve_ik_with_coll_factors ::
  "VarClass \<Rightarrow> ('rc, 'cg) solve_ik_with_coll_args \<Rightarrow> ('rc, 'cg) Factor list" where
  "solve_ik_with_coll_factors JointVar' a =
     (let joint_var_idx = 0;
          ik_weight = replicate 3 (pos_weight a) @ replicate 3 (rot_weight a);
          self_coll_factor' =
            self_coll_factor JointVar' joint_var_idx (kin a) (robot_coll a) (1 / 20)
              (self_coll_weight a);
          world_coll_factors =
            map (\<lambda>coll. world_coll_factor JointVar' joint_var_idx (kin a) (robot_coll a)
                          coll (1 / 10) (world_coll_weight a))
              (world_coll a)
      in ([] @
          [ ik_cost_factor JointVar' joint_var_idx (kin a) (target_poses a)
              (target_joint_indices a) ik_weight None None,
            rest_cost_factor JointVar' joint_var_idx
              (replicate (num_actuated_joints (kin a)) (rest_weight a)),
            limit_vel_cost_factor JointVar' joint_var_idx (kin a) (1 / 10)
              (replicate (num_actuated_joints (kin a)) (limit_weight a))
              (sixth_positional (initial_pose a)),
            limit_cost_factor JointVar' joint_var_idx (kin a)
              (replicate (num_actuated_joints (kin a)) (limit_weight a)) ])
         @ [self_coll_factor'] @ world_coll_factors)"

text \<open>Lines 215 to 230: the variable list is also the list given to
  \<^verbatim>\<open>VarValues.make\<close>, so the joint variable comes without a value; no
  \<^verbatim>\<open>linear_solver\<close> is passed.\<close>

definition solve_ik_with_coll_joint_vars :: "VarClass \<Rightarrow> Var list" where
  "solve_ik_with_coll_joint_vars JointVar' = [Var JointVar' 0]"

definition solve_ik_with_coll_call ::
  "VarClass \<Rightarrow> ('rc, 'cg) solve_ik_with_coll_args \<Rightarrow> ('rc, 'cg) solve_call" where
  "solve_ik_with_coll_call JointVar' a =
     \<lparr> factors = solve_ik_with_coll_factors JointVar' a,
       variables = solve_ik_with_coll_joint_vars JointVar',
       use_onp = False,
       linear_solver = None,
       initial_vals = VarValues_make (map BareVar (solve_ik_with_coll_joint_vars JointVar')),
       trust_region = TrustRegionConfig (Some 1),
       termination_config = TerminationConfig (1 / 100000) (1 / 100000) 50,
       verbose = False \<rparr>"

text \<open>What \<^verbatim>\<open>solve_ik_with_coll\<close> makes of the engine's answer (lines 233 and 234).\<close>

definition solve_ik_with_coll_outcome :: "VarClass \<Rightarrow> 'e + solution \<Rightarrow> 'e + val" where
  "solve_ik_with_coll_outcome JointVar' r =
     (case r of
        Inl e \<Rightarrow> Inl e
      | Inr sol \<Rightarrow> Inr (sol (Var JointVar' 0)))"

text \<open>The entry point. None of its parameters is an integer, and its weights are static,
  so entering it converts nothing.\<close>

definition solve_ik_with_coll ::
  "'e var_class_maker \<Rightarrow> ('rc, 'cg, 'e) engine \<Rightarrow> ('rc, 'cg) solve_ik_with_coll_args
     \<Rightarrow> 'e + val" where
  "solve_ik_with_coll get_var_class solve a =
     (case get_var_class (kin a) (initial_pose a) of
        Inl e \<Rightarrow> Inl e
      | Inr JointVar' \<Rightarrow>
          solve_ik_with_coll_outcome JointVar' (solve (solve_ik_with_coll_call JointVar' a)))"

text \<open>The obstacle of a world-collision factor.\<close>

fun factor_obstacle :: "('rc, 'cg) Factor \<Rightarrow> 'cg option" where
  "factor_obstacle (world_coll_factor V i k rc cg eta w) = Some cg"
| "factor_obstacle f = None"

text \<open>The base-pose variable type and index a pose-match factor was given.\<close>

fun factor_base_var :: "('rc, 'cg) Factor \<Rightarrow> VarClass option \<times> int option" where
  "factor_base_var (ik_cost_factor V i k T js w B b) = (B, b)"
| "factor_base_var f = (None, None)"

section \<open>Concrete calls\<close>

text \<open>A planar arm with two joints, one target, and two obstacles (named by numbers),
  on which the theorems below are evaluated.\<close>

definition arm2 :: JaxKinTree where
  "arm2 = \<lparr> num_actuated_joints = 2, limits_lower = [-3, -3], limits_upper = [3, 3],
            joint_vel_limit = [2, 2] \<rparr>"

definition arm2_JointVar :: VarClass where
  "arm2_JointVar = VarClass ''JointVar'' (ArrayVal [0, 0])"

definition arm2_BaseVar :: VarClass where
  "arm2_BaseVar = VarClass ''ConstrainedSE3Var'' (SE3Val SE3_identity)"

definition arm2_target :: "SE3 list" where
  "arm2_target = [SE3 [1, 0, 0, 0, 1 / 2, 0, 1 / 2]]"

definition arm2_call :: solve_ik_args where
  "arm2_call =
     solve_ik_defaults arm2 arm2_target [1] [1 / 4, - 1 / 4] arm2_JointVar
       [5, 5, 5, 1, 1, 1]"

definition arm2_coll_call :: "(nat, nat) solve_ik_with_coll_args" where
  "arm2_coll_call =
     solve_ik_with_coll_defaults arm2 [1] arm2_target 0 [7, 8] [1 / 4, - 1 / 4]"

text \<open>An engine that accepts every call and makes no step: it answers with the initial
  values (and with the default of its type for a variable that has none).\<close>

definition initial_values_engine :: "('rc, 'cg, 'e) engine" where
  "initial_values_engine c =
     Inr (\<lambda>v. case map_of (initial_vals c) v of
                 Some x \<Rightarrow> x
               | None \<Rightarrow> cls_default (var_cls v))"

text \<open>An engine that raises on every call.\<close>

definition refusing_engine :: "('rc, 'cg, string) engine" where
  "refusing_engine c = Inl ''refused''"

text \<open>Two makers of variable types: one gives the class the default value it is
  handed, the other ignores it and takes the middle of the joint limits.\<close>

definition class_of_default :: "'e var_class_maker" where
  "class_of_default k default_val = Inr (VarClass ''JointVar'' (ArrayVal default_val))"


text \<open>A second pair of calls, which differ from the first pair in every argument.\<close>

definition arm3 :: JaxKinTree where
  "arm3 = \<lparr> num_actuated_joints = 3, limits_lower = [-1, -1, -1], limits_upper = [1, 1, 1],
            joint_vel_limit = [4, 4, 4] \<rparr>"

definition arm3_JointVar :: VarClass where
  "arm3_JointVar = VarClass ''ArmVar'' (ArrayVal [1, 1, 1])"

definition arm3_call :: solve_ik_args where
  "arm3_call =
     \<lparr> kin = arm3, target_joint_indices = [2, 0], initial_pose = [0, 0, 0],
       rest_weight = 1 / 2, limit_weight = 30,
       target_pose = [SE3 [1, 0, 0, 0, 0, 1, 0], SE3 [1, 0, 0, 0, 1, 0, 0]],
       JointVar = arm3_JointVar, ik_weight = [1, 1, 1, 0, 0, 0],
       joint_var_idx = 4, joint_vel_weight = 2, dt = 1 / 2,
       use_manipulability = True, manipulability_weight = 1 / 4,
       solver_type = dense_cholesky, ConstrainedSE3Var = Some arm2_BaseVar,
       pose_var_idx = Some 9, max_iterations = 7 \<rparr>"

definition arm3_coll_call :: "(nat, nat) solve_ik_with_coll_args" where
  "arm3_coll_call =
     \<lparr> kin = arm3, target_joint_indices = [2, 0], initial_pose = [0, 0, 0],
       rest_weight = 1 / 2, limit_weight = 30,
       target_poses = [SE3 [1, 0, 0, 0, 0, 1, 0], SE3 [1, 0, 0, 0, 1, 0, 0]],
       robot_coll = 1, world_coll = [3],
       pos_weight = 2, rot_weight = 3,
       self_coll_weight = 4, world_coll_weight = 6 \<rparr>"

text \<open>A call of \<^verbatim>\<open>solve_ik\<close> whose joint index does not fit 32 bits.\<close>

definition arm2_overflow_call :: solve_ik_args where
  "arm2_overflow_call = arm2_call \<lparr> joint_var_idx := 2147483648 \<rparr>"

text \<open>Well-formed calls but for one negative weight.\<close>

definition arm2_negative_call :: solve_ik_args where
  "arm2_negative_call = arm2_call \<lparr> limit_weight := - 100 \<rparr>"

definition arm2_negative_coll_call :: "(nat, nat) solve_ik_with_coll_args" where
  "arm2_negative_coll_call = arm2_coll_call \<lparr> world_coll_weight := - 10 \<rparr>"

text \<open>A call of \<^verbatim>\<open>solve_ik\<close> for the two-joint arm with a target link 99, two target poses
  for one target index, three pose weights instead of six, and a negative limit weight.\<close>

definition arm2_malformed_call :: solve_ik_args where
  "arm2_malformed_call =
     arm2_call \<lparr> target_joint_indices := [99], limit_weight := - 100,
                 target_pose := arm2_target @ arm2_target, ik_weight := [1, 1, 1] \<rparr>"

text \<open>Engines that raise with what they were handed: the whole call, or one part of it.\<close>

definition echo_engine :: "('rc, 'cg, ('rc, 'cg) solve_call) engine" where
  "echo_engine c = Inl c"

definition report_engine :: "(('rc, 'cg) solve_call \<Rightarrow> 'x) \<Rightarrow> ('rc, 'cg, 'x) engine" where
  "report_engine part c = Inl (part c)"

section \<open>Residuals\<close>

text \<open>
  Modelled from the spec: the residual functions of the factors live in
  \<^verbatim>\<open>jaxmp/robot_factors.py\<close>, which is not among the sources; this section follows the
  spec's cost-factor library (section 4.1) and data model (section 3), over the reals.
  The kinematic model and the collision queries are external there too, and are the
  fields of \<open>services\<close>: the rest configuration; the 6-vector log-map error between a
  link's pose (at a configuration, composed with an optional base pose) and a desired
  pose; the unweighted manipulability residual at the target links; the distances of
  the robot's self-collision pairs; the distances between the robot and an obstacle.
\<close>

record ('rc, 'cg) services =
  rest_configuration :: array
  pose_error :: "JaxKinTree \<Rightarrow> array \<Rightarrow> SE3 option \<Rightarrow> int \<Rightarrow> SE3 \<Rightarrow> array"
  manipulability_error :: "JaxKinTree \<Rightarrow> array \<Rightarrow> int list \<Rightarrow> array"
  self_distances :: "'rc \<Rightarrow> JaxKinTree \<Rightarrow> array \<Rightarrow> real list"
  world_distances :: "'rc \<Rightarrow> 'cg \<Rightarrow> JaxKinTree \<Rightarrow> array \<Rightarrow> real list"

text \<open>"Residuals are scaled by sqrt(weight) so that the least-squares objective equals
  the weighted sum of squared errors."\<close>

definition scaled :: "real \<Rightarrow> real \<Rightarrow> real" where
  "scaled w e = sqrt w * e"

text \<open>"Zero when the joint value is within [lower, upper]; otherwise equal to the signed
  excess beyond the nearest bound."\<close>

definition limit_excess :: "real \<Rightarrow> real \<Rightarrow> real \<Rightarrow> real" where
  "limit_excess lower upper q =
     (if q < lower then q - lower else if upper < q then q - upper else 0)"

text \<open>"Computed from (current configuration - previous configuration)/dt compared
  against the joint's velocity bound; zero inside the bound, excess otherwise."\<close>

definition vel_excess :: "real \<Rightarrow> real \<Rightarrow> real \<Rightarrow> real \<Rightarrow> real" where
  "vel_excess step bound q prev = max 0 (\<bar>(q - prev) / step\<bar> - bound)"

text \<open>"Residual = max(0, margin - distance)."\<close>

definition coll_excess :: "real \<Rightarrow> real \<Rightarrow> real" where
  "coll_excess margin d = max 0 (margin - d)"

text \<open>
  The weighted residual vector of a factor at a joint configuration \<open>q\<close> and an optional
  base pose \<open>b\<close>. Vectors are combined entry by entry; where the lengths differ, \<open>zip\<close>
  stops at the shorter one. The base pose enters the pose-match factor only when the
  factor was built with a base-pose variable type.
\<close>

fun residual ::
  "('rc, 'cg) services \<Rightarrow> ('rc, 'cg) Factor \<Rightarrow> array \<Rightarrow> SE3 option \<Rightarrow> array" where
  "residual srv (limit_cost_factor V i k w) q b =
     map (\<lambda>(wi, lo, hi, qi). scaled wi (limit_excess lo hi qi))
       (zip w (zip (limits_lower k) (zip (limits_upper k) q)))"
| "residual srv (limit_vel_cost_factor V i k step w p) q b =
     map (\<lambda>(wi, bound, qi, pv). scaled wi (vel_excess step bound qi pv))
       (zip w (zip (joint_vel_limit k) (zip q (prev_cfg_value p))))"
| "residual srv (rest_cost_factor V i w) q b =
     map (\<lambda>(wi, qi, ri). scaled wi (qi - ri))
       (zip w (zip q (rest_configuration srv)))"
| "residual srv (ik_cost_factor V i k T js w B bi) q b =
     concat (map (\<lambda>(j, Tj). map (\<lambda>(wi, e). scaled wi e)
                    (zip w (pose_error srv k q (if B = None then None else b) j Tj)))
               (zip js T))"
| "residual srv (manipulability_cost_factor V i k js w) q b =
     map (scaled w) (manipulability_error srv k q js)"
| "residual srv (self_coll_factor V i k rc eta w) q b =
     map (\<lambda>d. scaled w (coll_excess eta d)) (self_distances srv rc k q)"
| "residual srv (world_coll_factor V i k rc cg eta w) q b =
     map (\<lambda>d. scaled w (coll_excess eta d)) (world_distances srv rc cg k q)"

text \<open>The cost a factor contributes: the sum of the squares of its residual.\<close>

definition cost :: "('rc, 'cg) services \<Rightarrow> ('rc, 'cg) Factor \<Rightarrow> array \<Rightarrow> SE3 option \<Rightarrow> real" where
  "cost srv f q b = (\<Sum>r \<leftarrow> residual srv f q b. r\<^sup>2)"

text \<open>Services of the two-joint arm, chosen so that no unweighted error vanishes.\<close>

definition arm2_services :: "(nat, nat) services" where
  "arm2_services =
     \<lparr> rest_configuration = [1, 1],
       pose_error = (\<lambda>k q b j T. [1, 2, 3, 4, 5, 6]),
       manipulability_error = (\<lambda>k q js. [7]),
       self_distances = (\<lambda>rc k q. [0, - 1]),
       world_distances = (\<lambda>rc cg k q. [- 2]) \<rparr>"

section \<open>The assembled factor lists\<close>

text \<open>
  C6. For every call of \<^verbatim>\<open>solve_ik\<close>, the factor list handed to the engine holds the
  joint-limit, joint-velocity-limit, rest-pose and pose-match factors, in this order,
  followed by the manipulability factor exactly when \<^verbatim>\<open>use_manipulability\<close> is set; so a
  manipulability factor is in the list if and only if the flag is set.
\<close>

theorem solve_ik_factor_kinds:
  "map factor_kind (factors (solve_ik_call a :: ('rc, 'cg) solve_call)) =
     [JointLimit, JointVelLimit, RestPose, PoseMatch]
     @ (if use_manipulability a then [Manipulability] else [])
   \<and> (Manipulability \<in> factor_kind ` set (factors (solve_ik_call a :: ('rc, 'cg) solve_call)))
       = use_manipulability a"
  by (simp add: solve_ik_call_def solve_ik_factors_def)

text \<open>The theorem at a call of the three-joint arm, which sets the flag, and at the
  default call of the two-joint arm, which does not.\<close>

theorem solve_ik_factor_kinds_witness:
  "map factor_kind (factors (solve_ik_call arm3_call :: (nat, nat) solve_call)) =
     [JointLimit, JointVelLimit, RestPose, PoseMatch, Manipulability]
   \<and> map factor_kind (factors (solve_ik_call arm2_call :: (nat, nat) solve_call)) =
     [JointLimit, JointVelLimit, RestPose, PoseMatch]"
  using solve_ik_factor_kinds [of arm3_call, where 'rc = nat and 'cg = nat]
    solve_ik_factor_kinds [of arm2_call, where 'rc = nat and 'cg = nat]
  by (simp add: arm3_call_def arm2_call_def solve_ik_defaults_def)

text \<open>
  C5. For every call of \<^verbatim>\<open>solve_ik_with_coll\<close> with \<open>k\<close> world obstacles, and whatever
  variable type \<^verbatim>\<open>get_var_class\<close> returned, the factor list handed to the engine is one
  pose-match, one rest-pose, one joint-velocity-limit, one joint-limit and one
  self-collision factor, followed by exactly \<open>k\<close> world-collision factors and nothing
  else; the world-collision factors are those of the obstacles, one for each, in the
  order supplied.
\<close>

theorem solve_ik_with_coll_factor_kinds:
  "map factor_kind (factors (solve_ik_with_coll_call V a)) =
     [PoseMatch, RestPose, JointVelLimit, JointLimit, SelfCollision]
     @ replicate (length (world_coll a)) WorldCollision
   \<and> length (factors (solve_ik_with_coll_call V a)) = 5 + length (world_coll a)
   \<and> map factor_obstacle (drop 5 (factors (solve_ik_with_coll_call V a)))
       = map Some (world_coll a)"
  by (simp add: solve_ik_with_coll_call_def solve_ik_with_coll_factors_def Let_def comp_def
      map_replicate_const)

text \<open>The theorem at the call of the two-joint arm with its two obstacles.\<close>

theorem solve_ik_with_coll_factor_kinds_witness:
  "map factor_kind (factors (solve_ik_with_coll_call arm2_JointVar arm2_coll_call)) =
     [PoseMatch, RestPose, JointVelLimit, JointLimit, SelfCollision,
      WorldCollision, WorldCollision]
   \<and> map factor_obstacle
        (drop 5 (factors (solve_ik_with_coll_call arm2_JointVar arm2_coll_call)))
       = [Some 7, Some 8]"
  using solve_ik_with_coll_factor_kinds [of arm2_JointVar arm2_coll_call]
  by (simp add: arm2_coll_call_def solve_ik_with_coll_defaults_def numeral_2_eq_2)

text \<open>
  C8. In both entry points the factor list handed to the engine holds exactly one
  joint-velocity-limit factor, built with the caller's \<^verbatim>\<open>initial_pose\<close> as the previous
  configuration: \<^verbatim>\<open>solve_ik\<close> passes it as the keyword \<^verbatim>\<open>prev_cfg\<close>, \<^verbatim>\<open>solve_ik_with_coll\<close> as
  the sixth positional argument. Each entry point that reaches the engine calls it
  once, on the call that holds this factor, and returns what it makes of the engine's
  answer: the reference is a constant of that one call, whatever the engine does in
  its iterations. (An engine that raises with the references it was handed makes
  \<^verbatim>\<open>solve_ik\<close> raise with \<^verbatim>\<open>initial_pose\<close>.) A call of \<^verbatim>\<open>solve_ik\<close> whose integers do not fit
  32 bits, and a call of \<^verbatim>\<open>solve_ik_with_coll\<close> for which \<^verbatim>\<open>get_var_class\<close> raises, never
  reach the engine.
\<close>

theorem limit_vel_prev_cfg_is_initial_pose:
  "(jit_args_ok a \<longrightarrow>
      solve_ik solve a = solve_ik_outcome a (solve (solve_ik_call a))
      \<and> solve_ik (report_engine (\<lambda>cl. map factor_prev_cfg
                      (filter (\<lambda>f. factor_kind f = JointVelLimit) (factors cl)))
                    :: ('rc, 'cg, array option list) engine) a
          = Inl (Raised [Some (initial_pose a)]))
   \<and> (\<not> jit_args_ok a \<longrightarrow> solve_ik solve a = Inl OverflowError)
   \<and> filter (\<lambda>f. factor_kind f = JointVelLimit)
        (factors (solve_ik_call a :: ('rc, 'cg) solve_call))
       = [limit_vel_cost_factor (JointVar a) (joint_var_idx a) (kin a) (dt a)
            (replicate (num_actuated_joints (kin a)) (joint_vel_weight a))
            (prev_cfg_keyword (initial_pose a))]
   \<and> map factor_prev_cfg
        (filter (\<lambda>f. factor_kind f = JointVelLimit)
           (factors (solve_ik_call a :: ('rc, 'cg) solve_call)))
       = [Some (initial_pose a)]
   \<and> (get_var_class (kin c) (initial_pose c) = Inr V \<longrightarrow>
        solve_ik_with_coll get_var_class solve' c
          = solve_ik_with_coll_outcome V (solve' (solve_ik_with_coll_call V c)))
   \<and> (\<forall>e. get_var_class (kin c) (initial_pose c) = Inl e \<longrightarrow>
        solve_ik_with_coll get_var_class solve' c = Inl e)
   \<and> filter (\<lambda>f. factor_kind f = JointVelLimit) (factors (solve_ik_with_coll_call V c))
       = [limit_vel_cost_factor V 0 (kin c) (1 / 10)
            (replicate (num_actuated_joints (kin c)) (limit_weight c))
            (sixth_positional (initial_pose c))]
   \<and> map factor_prev_cfg
        (filter (\<lambda>f. factor_kind f = JointVelLimit) (factors (solve_ik_with_coll_call V c)))
       = [Some (initial_pose c)]"
  by (simp add: solve_ik_def solve_ik_outcome_def report_engine_def solve_ik_call_def
      solve_ik_factors_def solve_ik_with_coll_def solve_ik_with_coll_call_def
      solve_ik_with_coll_factors_def Let_def filter_empty_conv)

text \<open>The theorem at the calls of the three-joint arm, which starts from the zero
  configuration.\<close>

theorem limit_vel_prev_cfg_is_initial_pose_witness:
  "jit_args_ok arm3_call
   \<and> solve_ik (report_engine (\<lambda>cl. map factor_prev_cfg
                   (filter (\<lambda>f. factor_kind f = JointVelLimit) (factors cl)))
                 :: (nat, nat, array option list) engine) arm3_call
       = Inl (Raised [Some [0, 0, 0]])
   \<and> (class_of_default :: array option list var_class_maker) (kin arm3_coll_call)
        (initial_pose arm3_coll_call) = Inr (VarClass ''JointVar'' (ArrayVal [0, 0, 0]))
   \<and> solve_ik_with_coll class_of_default
        (report_engine (\<lambda>cl. map factor_prev_cfg
           (filter (\<lambda>f. factor_kind f = JointVelLimit) (factors cl)))) arm3_coll_call
       = Inl [Some [0, 0, 0]]"
  using limit_vel_prev_cfg_is_initial_pose
    [where a = arm3_call and 'rc = nat and 'cg = nat and c = arm3_coll_call
       and get_var_class = "class_of_default :: array option list var_class_maker"
       and V = "VarClass ''JointVar'' (ArrayVal [0, 0, 0])"
       and solve' = "report_engine (\<lambda>cl. map factor_prev_cfg
           (filter (\<lambda>f. factor_kind f = JointVelLimit) (factors cl)))"]
  by (simp add: arm3_call_def arm3_coll_call_def jit_args_ok_def in_int32_def
      class_of_default_def solve_ik_with_coll_outcome_def report_engine_def solve_ik_def
      solve_ik_outcome_def solve_ik_call_def solve_ik_factors_def solve_ik_with_coll_def
      solve_ik_with_coll_call_def solve_ik_with_coll_factors_def Let_def)

section \<open>The variables and their initial values\<close>



text \<open>
  C4. For every call of \<^verbatim>\<open>solve_ik\<close> with \<^verbatim>\<open>ConstrainedSE3Var\<close> equal to \<^verbatim>\<open>None\<close>, the joint
  variable is the only variable declared and the only one given an initial value, no
  factor is given a base-pose variable type, and the base pose of every result that
  \<^verbatim>\<open>solve_ik\<close> returns is the identity transform: whenever the integers fit 32 bits and
  the engine returns a solution, the result is the identity next to the joint values
  read from the solution. (When an integer does not fit, \<^verbatim>\<open>solve_ik\<close> raises
  \<^verbatim>\<open>OverflowError\<close> and returns nothing.)
\<close>

theorem solve_ik_without_base_var:
  assumes "ConstrainedSE3Var a = None"
  shows "variables (solve_ik_call a :: ('rc, 'cg) solve_call)
           = [Var (JointVar a) (joint_var_idx a)]
    \<and> map fst (initial_vals (solve_ik_call a :: ('rc, 'cg) solve_call))
           = [Var (JointVar a) (joint_var_idx a)]
    \<and> (\<forall>f \<in> set (factors (solve_ik_call a :: ('rc, 'cg) solve_call)).
          fst (factor_base_var f) = None)
    \<and> (jit_args_ok a \<longrightarrow>
         (\<forall>sol. (solve :: ('rc, 'cg, 'e) engine) (solve_ik_call a) = Inr sol \<longrightarrow>
            solve_ik solve a = Inr (SE3Val SE3_identity, sol (Var (JointVar a) 0))))
    \<and> (\<forall>r. solve_ik solve a = Inr r \<longrightarrow> fst r = SE3Val SE3_identity)
    \<and> (\<not> jit_args_ok a \<longrightarrow> solve_ik solve a = Inl OverflowError)"
  using assms
  by (auto simp: solve_ik_call_def solve_ik_joint_vars_def solve_ik_joint_var_values_def
      VarValues_make_def with_value_def solve_ik_def solve_ik_outcome_def solve_ik_result_def
      solve_ik_factors_def split: sum.splits if_splits)

text \<open>The theorem at the default call of the two-joint arm, with the engine that answers
  with the initial values.\<close>

theorem solve_ik_without_base_var_witness:
  "ConstrainedSE3Var arm2_call = None \<and> jit_args_ok arm2_call
   \<and> variables (solve_ik_call arm2_call :: (nat, nat) solve_call) = [Var arm2_JointVar 0]
   \<and> solve_ik (initial_values_engine :: (nat, nat, unit) engine) arm2_call
        = Inr (SE3Val (SE3 [1, 0, 0, 0, 0, 0, 0]), ArrayVal [1 / 4, - 1 / 4])"
proof -
  have h: "ConstrainedSE3Var arm2_call = None"
    by (simp add: arm2_call_def solve_ik_defaults_def)
  show ?thesis
    using h solve_ik_without_base_var [OF h, of "initial_values_engine :: (nat, nat, unit) engine"]
    by (simp add: arm2_call_def solve_ik_defaults_def initial_values_engine_def
        solve_ik_call_def solve_ik_joint_var_values_def VarValues_make_def with_value_def
        SE3_identity_def jit_args_ok_def in_int32_def solve_ik_def solve_ik_outcome_def
        solve_ik_result_def solve_ik_joint_vars_def solve_ik_factors_def)
qed

section \<open>The configuration of the solve\<close>

text \<open>
  C10. The solver type has three values, the sparse direct \<^verbatim>\<open>cholmod\<close>, the iterative
  \<^verbatim>\<open>conjugate_gradient\<close> and the dense direct \<^verbatim>\<open>dense_cholesky\<close>. Every call of \<^verbatim>\<open>solve_ik\<close>
  that reaches the engine calls it with the caller's \<^verbatim>\<open>solver_type\<close> as
  \<^verbatim>\<open>linear_solver\<close>: an engine that raises with the solver it was handed makes
  \<^verbatim>\<open>solve_ik\<close> raise with the chosen one, and the three choices give three different
  outcomes. (A call whose integers do not fit 32 bits raises \<^verbatim>\<open>OverflowError\<close> and
  hands nothing over.)
\<close>

theorem solve_ik_linear_solver:
  "(jit_args_ok a \<longrightarrow>
      solve_ik solve a = solve_ik_outcome a (solve (solve_ik_call a))
      \<and> solve_ik (report_engine linear_solver :: ('rc, 'cg, linear_solver option) engine) a
          = Inl (Raised (Some (solver_type a)))
      \<and> distinct (map (\<lambda>s. solve_ik (report_engine linear_solver
                                        :: ('rc, 'cg, linear_solver option) engine)
                               (a\<lparr>solver_type := s\<rparr>))
                    [cholmod, conjugate_gradient, dense_cholesky]))
   \<and> linear_solver (solve_ik_call a :: ('rc, 'cg) solve_call) = Some (solver_type a)
   \<and> (\<not> jit_args_ok a \<longrightarrow> solve_ik solve a = Inl OverflowError)"
  by (simp add: solve_ik_def solve_ik_outcome_def report_engine_def solve_ik_call_def
      jit_args_ok_def)

text \<open>The theorem at the call of the three-joint arm, which asks for the dense solver,
  at the same call asking for \<^verbatim>\<open>cholmod\<close>, and at a call that overflows.\<close>

theorem solve_ik_linear_solver_witness:
  "jit_args_ok arm3_call
   \<and> solve_ik (report_engine linear_solver :: (nat, nat, linear_solver option) engine) arm3_call
          = Inl (Raised (Some dense_cholesky))
   \<and> solve_ik (report_engine linear_solver :: (nat, nat, linear_solver option) engine)
        (arm3_call\<lparr>solver_type := cholmod\<rparr>) = Inl (Raised (Some cholmod))
   \<and> \<not> jit_args_ok arm2_overflow_call
   \<and> solve_ik (report_engine linear_solver :: (nat, nat, linear_solver option) engine)
        arm2_overflow_call = Inl OverflowError"
  using solve_ik_linear_solver [where a = arm3_call and 'rc = nat and 'cg = nat
               and solve = "report_engine linear_solver :: (nat, nat, linear_solver option) engine"]
    solve_ik_linear_solver [where a = "arm3_call\<lparr>solver_type := cholmod\<rparr>" and 'rc = nat and 'cg = nat
               and solve = "report_engine linear_solver :: (nat, nat, linear_solver option) engine"]
    solve_ik_linear_solver [where a = arm2_overflow_call and 'rc = nat and 'cg = nat
               and solve = "report_engine linear_solver :: (nat, nat, linear_solver option) engine"]
  by (simp add: arm3_call_def arm2_overflow_call_def arm2_call_def solve_ik_defaults_def
      jit_args_ok_def in_int32_def solve_ik_def solve_ik_outcome_def report_engine_def
      solve_ik_call_def)

text \<open>
  C2, as the code has it. In both entry points the gradient tolerance and the parameter
  tolerance handed to the engine are the constant \<open>1e-5\<close>. In \<^verbatim>\<open>solve_ik\<close> the maximum
  iteration count handed over is the caller's \<^verbatim>\<open>max_iterations\<close> (default 50) whenever
  the call reaches the engine, that is, whenever \<^verbatim>\<open>joint_var_idx\<close>, \<^verbatim>\<open>pose_var_idx\<close> and
  \<^verbatim>\<open>max_iterations\<close> fit 32 bits; otherwise \<^verbatim>\<open>solve_ik\<close> raises \<^verbatim>\<open>OverflowError\<close> and hands
  nothing over. In \<^verbatim>\<open>solve_ik_with_coll\<close> the count is the constant 50.
\<close>

theorem termination_config_of_calls:
  "(jit_args_ok a \<longrightarrow>
      solve_ik solve a = solve_ik_outcome a (solve (solve_ik_call a))
      \<and> solve_ik (report_engine termination_config :: ('rc, 'cg, TerminationConfig) engine) a
          = Inl (Raised (TerminationConfig (1 / 100000) (1 / 100000) (max_iterations a))))
   \<and> (\<not> jit_args_ok a \<longrightarrow> solve_ik solve a = Inl OverflowError)
   \<and> termination_config (solve_ik_call a :: ('rc, 'cg) solve_call)
        = TerminationConfig (1 / 100000) (1 / 100000) (max_iterations a)
   \<and> max_iterations (solve_ik_defaults k T js q0 V w) = 50
   \<and> (get_var_class (kin c) (initial_pose c) = Inr V' \<longrightarrow>
        solve_ik_with_coll get_var_class solve' c
          = solve_ik_with_coll_outcome V' (solve' (solve_ik_with_coll_call V' c)))
   \<and> termination_config (solve_ik_with_coll_call V' c)
        = TerminationConfig (1 / 100000) (1 / 100000) 50"
  by (simp add: solve_ik_def solve_ik_outcome_def report_engine_def solve_ik_call_def
      solve_ik_defaults_def solve_ik_with_coll_def solve_ik_with_coll_call_def)

text \<open>The theorem at the calls of the three-joint arm, which asks for 7 iterations, and
  at the same call asking for \<open>2^31\<close> iterations.\<close>

theorem termination_config_of_calls_witness:
  "jit_args_ok arm3_call
   \<and> solve_ik (report_engine termination_config :: (nat, nat, TerminationConfig) engine) arm3_call
        = Inl (Raised (TerminationConfig (1 / 100000) (1 / 100000) 7))
   \<and> \<not> jit_args_ok (arm3_call\<lparr>max_iterations := 2147483648\<rparr>)
   \<and> solve_ik (report_engine termination_config :: (nat, nat, TerminationConfig) engine)
        (arm3_call\<lparr>max_iterations := 2147483648\<rparr>) = Inl OverflowError
   \<and> (class_of_default :: TerminationConfig var_class_maker) (kin arm3_coll_call) (initial_pose arm3_coll_call)
        = Inr (VarClass ''JointVar'' (ArrayVal [0, 0, 0]))
   \<and> solve_ik_with_coll class_of_default (report_engine termination_config) arm3_coll_call
        = Inl (TerminationConfig (1 / 100000) (1 / 100000) 50)"
  using termination_config_of_calls [where a = arm3_call and 'rc = nat and 'cg = nat
        and solve = "report_engine termination_config :: (nat, nat, TerminationConfig) engine"
        and get_var_class = "class_of_default :: TerminationConfig var_class_maker"
        and c = arm3_coll_call and V' = "VarClass ''JointVar'' (ArrayVal [0, 0, 0])"
        and solve' = "report_engine termination_config"]
    termination_config_of_calls [where a = "arm3_call\<lparr>max_iterations := 2147483648\<rparr>" and 'rc = nat and 'cg = nat
        and solve = "report_engine termination_config :: (nat, nat, TerminationConfig) engine"]
  by (simp add: arm3_call_def arm3_coll_call_def jit_args_ok_def in_int32_def
      class_of_default_def solve_ik_with_coll_outcome_def report_engine_def
      solve_ik_with_coll_call_def solve_ik_def solve_ik_outcome_def solve_ik_call_def
      solve_ik_with_coll_def solve_ik_defaults_def)

text \<open>
  Against the claim as the spec states it (tolerances and iteration count taken from the
  caller's configuration): two calls of \<^verbatim>\<open>solve_ik_with_coll\<close> that differ in every
  argument hand the same termination configuration to the engine, and two calls of
  \<^verbatim>\<open>solve_ik\<close> that differ in every argument hand over the same two tolerances.
\<close>

theorem termination_config_counterexample:
  "solve_ik_with_coll class_of_default (report_engine termination_config) arm2_coll_call
     = solve_ik_with_coll class_of_default (report_engine termination_config) arm3_coll_call
   \<and> solve_ik_with_coll class_of_default (report_engine termination_config) arm2_coll_call
     = Inl (TerminationConfig (1 / 100000) (1 / 100000) 50)
   \<and> termination_config (solve_ik_with_coll_call arm2_JointVar arm2_coll_call)
     = termination_config (solve_ik_with_coll_call arm3_JointVar arm3_coll_call)
   \<and> kin arm2_coll_call \<noteq> kin arm3_coll_call
   \<and> target_joint_indices arm2_coll_call \<noteq> target_joint_indices arm3_coll_call
   \<and> target_poses arm2_coll_call \<noteq> target_poses arm3_coll_call
   \<and> robot_coll arm2_coll_call \<noteq> robot_coll arm3_coll_call
   \<and> world_coll arm2_coll_call \<noteq> world_coll arm3_coll_call
   \<and> initial_pose arm2_coll_call \<noteq> initial_pose arm3_coll_call
   \<and> pos_weight arm2_coll_call \<noteq> pos_weight arm3_coll_call
   \<and> rot_weight arm2_coll_call \<noteq> rot_weight arm3_coll_call
   \<and> rest_weight arm2_coll_call \<noteq> rest_weight arm3_coll_call
   \<and> limit_weight arm2_coll_call \<noteq> limit_weight arm3_coll_call
   \<and> self_coll_weight arm2_coll_call \<noteq> self_coll_weight arm3_coll_call
   \<and> world_coll_weight arm2_coll_call \<noteq> world_coll_weight arm3_coll_call
   \<and> solve_ik (report_engine (\<lambda>cl. (term_gradient_tolerance (termination_config cl),
                                      term_parameter_tolerance (termination_config cl)))
                 :: (nat, nat, real \<times> real) engine) arm2_call
       = Inl (Raised (1 / 100000, 1 / 100000))
   \<and> solve_ik (report_engine (\<lambda>cl. (term_gradient_tolerance (termination_config cl),
                                      term_parameter_tolerance (termination_config cl)))
                 :: (nat, nat, real \<times> real) engine) arm3_call
       = Inl (Raised (1 / 100000, 1 / 100000))
   \<and> kin arm2_call \<noteq> kin arm3_call
   \<and> target_pose arm2_call \<noteq> target_pose arm3_call
   \<and> target_joint_indices arm2_call \<noteq> target_joint_indices arm3_call
   \<and> initial_pose arm2_call \<noteq> initial_pose arm3_call
   \<and> JointVar arm2_call \<noteq> JointVar arm3_call
   \<and> ik_weight arm2_call \<noteq> ik_weight arm3_call
   \<and> joint_var_idx arm2_call \<noteq> joint_var_idx arm3_call
   \<and> rest_weight arm2_call \<noteq> rest_weight arm3_call
   \<and> limit_weight arm2_call \<noteq> limit_weight arm3_call
   \<and> joint_vel_weight arm2_call \<noteq> joint_vel_weight arm3_call
   \<and> dt arm2_call \<noteq> dt arm3_call
   \<and> use_manipulability arm2_call \<noteq> use_manipulability arm3_call
   \<and> manipulability_weight arm2_call \<noteq> manipulability_weight arm3_call
   \<and> solver_type arm2_call \<noteq> solver_type arm3_call
   \<and> ConstrainedSE3Var arm2_call \<noteq> ConstrainedSE3Var arm3_call
   \<and> pose_var_idx arm2_call \<noteq> pose_var_idx arm3_call
   \<and> max_iterations arm2_call \<noteq> max_iterations arm3_call"
  by (simp add: solve_ik_call_def solve_ik_with_coll_call_def arm2_call_def arm3_call_def
      arm2_coll_call_def arm3_coll_call_def solve_ik_defaults_def
      solve_ik_with_coll_defaults_def arm2_def arm3_def arm2_target_def arm2_JointVar_def
      arm3_JointVar_def solve_ik_def solve_ik_outcome_def solve_ik_with_coll_def
      solve_ik_with_coll_outcome_def report_engine_def class_of_default_def jit_args_ok_def
      in_int32_def)

section \<open>Errors and the result\<close>

text \<open>
  C3, as the code has it. Neither entry point checks target indices, vector lengths or
  the sign of a weight. \<^verbatim>\<open>solve_ik\<close> fails on its own in one case only: it raises
  \<^verbatim>\<open>OverflowError\<close>, before any factor is built or the engine called, exactly when
  \<^verbatim>\<open>joint_var_idx\<close>, \<^verbatim>\<open>pose_var_idx\<close> or \<^verbatim>\<open>max_iterations\<close> does not fit 32 bits, whatever
  the indices, poses and weights are. Otherwise it hands the assembled call to the
  engine and fails exactly when the engine fails on it, with the engine's error.
  \<^verbatim>\<open>solve_ik_with_coll\<close> fails exactly when \<^verbatim>\<open>get_var_class\<close> raises or the engine fails on
  the assembled call, with their error.
\<close>

theorem entry_points_own_failures:
  "(\<not> jit_args_ok a \<longrightarrow> solve_ik solve a = Inl OverflowError)
   \<and> (jit_args_ok a \<longrightarrow>
        solve_ik solve a = solve_ik_outcome a (solve (solve_ik_call a))
        \<and> isl (solve_ik solve a) = isl (solve (solve_ik_call a))
        \<and> (\<forall>e. solve (solve_ik_call a) = Inl e \<longrightarrow> solve_ik solve a = Inl (Raised e)))
   \<and> jit_args_ok (a\<lparr>target_joint_indices := js, target_pose := T, ik_weight := w,
                      rest_weight := rw, limit_weight := lw, joint_vel_weight := vw,
                      manipulability_weight := mw\<rparr>) = jit_args_ok a
   \<and> (\<forall>e. get_var_class (kin c) (initial_pose c) = Inl e \<longrightarrow>
        solve_ik_with_coll get_var_class solve' c = Inl e)
   \<and> (\<forall>V. get_var_class (kin c) (initial_pose c) = Inr V \<longrightarrow>
        solve_ik_with_coll get_var_class solve' c
          = solve_ik_with_coll_outcome V (solve' (solve_ik_with_coll_call V c))
        \<and> isl (solve_ik_with_coll get_var_class solve' c)
            = isl (solve' (solve_ik_with_coll_call V c))
        \<and> (\<forall>e. solve' (solve_ik_with_coll_call V c) = Inl e \<longrightarrow>
              solve_ik_with_coll get_var_class solve' c = Inl e))"
  by (auto simp: solve_ik_def solve_ik_outcome_def solve_ik_with_coll_def
      solve_ik_with_coll_outcome_def jit_args_ok_def split: sum.splits)

text \<open>The theorem at a call that overflows and at the calls with a negative weight, with
  the engine that raises.\<close>

theorem entry_points_own_failures_witness:
  "\<not> jit_args_ok arm2_overflow_call
   \<and> solve_ik (refusing_engine :: (nat, nat, string) engine) arm2_overflow_call = Inl OverflowError
   \<and> jit_args_ok arm2_negative_call
   \<and> (refusing_engine :: (nat, nat, string) engine) (solve_ik_call arm2_negative_call)
        = Inl ''refused''
   \<and> solve_ik (refusing_engine :: (nat, nat, string) engine) arm2_negative_call
        = Inl (Raised ''refused'')
   \<and> (class_of_default :: string var_class_maker) (kin arm2_negative_coll_call)
        (initial_pose arm2_negative_coll_call) = Inr (VarClass ''JointVar'' (ArrayVal [1 / 4, - 1 / 4]))
   \<and> solve_ik_with_coll class_of_default refusing_engine arm2_negative_coll_call
        = Inl ''refused''"
  using entry_points_own_failures [where solve = "refusing_engine :: (nat, nat, string) engine"
        and a = arm2_overflow_call]
    entry_points_own_failures [where solve = "refusing_engine :: (nat, nat, string) engine"
        and a = arm2_negative_call and get_var_class = "class_of_default :: string var_class_maker"
        and solve' = refusing_engine and c = arm2_negative_coll_call]
  by (simp add: refusing_engine_def arm2_overflow_call_def arm2_negative_call_def
      arm2_negative_coll_call_def arm2_call_def arm2_coll_call_def solve_ik_defaults_def
      solve_ik_with_coll_defaults_def jit_args_ok_def in_int32_def class_of_default_def
      solve_ik_def solve_ik_outcome_def solve_ik_with_coll_def solve_ik_with_coll_outcome_def)

text \<open>
  Against the claim as the spec states it (malformed input fails before the solve with a
  validation error): \<^verbatim>\<open>solve_ik\<close>, called for the two-joint arm with a target link 99, two
  poses for one index, three pose weights and a negative limit weight, hands the engine
  a call that carries all of them (the engine that raises with the call it was handed
  shows it, limit weights \<open>-100\<close> included), and returns normally when the engine
  accepts the call; so does \<^verbatim>\<open>solve_ik_with_coll\<close> with a negative world-collision weight.
\<close>

theorem malformed_call_counterexample:
  "limit_weight arm2_malformed_call < 0
   \<and> target_joint_indices arm2_malformed_call = [99]
   \<and> num_actuated_joints (kin arm2_malformed_call) = 2
   \<and> length (target_pose arm2_malformed_call) = 2
   \<and> length (ik_weight arm2_malformed_call) = 3
   \<and> solve_ik (echo_engine :: (nat, nat, (nat, nat) solve_call) engine) arm2_malformed_call
       = Inl (Raised (solve_ik_call arm2_malformed_call))
   \<and> map factor_weights (factors (solve_ik_call arm2_malformed_call :: (nat, nat) solve_call))
       = [[- 100, - 100], [0, 0], [1 / 1000, 1 / 1000], [1, 1, 1]]
   \<and> solve_ik (initial_values_engine :: (nat, nat, unit) engine) arm2_malformed_call
       = Inr (SE3Val SE3_identity, ArrayVal [1 / 4, - 1 / 4])
   \<and> world_coll_weight arm2_negative_coll_call < 0
   \<and> solve_ik_with_coll class_of_default
         (echo_engine :: (nat, nat, (nat, nat) solve_call) engine) arm2_negative_coll_call
       = Inl (solve_ik_with_coll_call (VarClass ''JointVar'' (ArrayVal [1 / 4, - 1 / 4]))
                arm2_negative_coll_call)
   \<and> solve_ik_with_coll class_of_default (initial_values_engine :: (nat, nat, unit) engine)
         arm2_negative_coll_call
       = Inr (ArrayVal [1 / 4, - 1 / 4])"
  by (simp add: arm2_malformed_call_def arm2_negative_coll_call_def arm2_call_def
      arm2_coll_call_def solve_ik_defaults_def solve_ik_with_coll_defaults_def solve_ik_def
      solve_ik_outcome_def solve_ik_with_coll_def solve_ik_with_coll_outcome_def
      initial_values_engine_def echo_engine_def solve_ik_call_def solve_ik_factors_def
      solve_ik_with_coll_call_def solve_ik_result_def solve_ik_joint_var_values_def
      VarValues_make_def with_value_def solve_ik_with_coll_joint_vars_def class_of_default_def
      arm2_JointVar_def arm2_def arm2_target_def jit_args_ok_def in_int32_def numeral_2_eq_2)

text \<open>
  C7. Every result that \<^verbatim>\<open>solve_ik\<close> returns is the engine's solution read at the joint
  variable with index 0 and, when a base-pose variable type is supplied, at the
  base-pose variable with index 0, whatever \<^verbatim>\<open>joint_var_idx\<close> and \<^verbatim>\<open>pose_var_idx\<close> are; and
  whenever the integers fit 32 bits and the engine returns a solution, \<^verbatim>\<open>solve_ik\<close>
  returns that reading. Every factor is attached to the joint variable with index
  \<^verbatim>\<open>joint_var_idx\<close>, and the pose-match factor to the base-pose variable with index
  \<^verbatim>\<open>pose_var_idx\<close>; so when an index is not 0, the variable read is not one a factor was
  attached to.
\<close>

theorem solve_ik_reads_index_zero:
  "(jit_args_ok a \<longrightarrow>
      (\<forall>sol. (solve :: ('rc, 'cg, 'e) engine) (solve_ik_call a) = Inr sol \<longrightarrow>
         solve_ik solve a =
           Inr (case ConstrainedSE3Var a of
                  Some C \<Rightarrow> sol (Var C 0)
                | None \<Rightarrow> SE3Val SE3_identity,
                sol (Var (JointVar a) 0))))
    \<and> (\<forall>r. solve_ik solve a = Inr r \<longrightarrow>
          (\<exists>sol. solve (solve_ik_call a) = Inr sol
             \<and> r = (case ConstrainedSE3Var a of
                      Some C \<Rightarrow> sol (Var C 0)
                    | None \<Rightarrow> SE3Val SE3_identity,
                    sol (Var (JointVar a) 0))))
    \<and> solve_ik_result (a\<lparr>joint_var_idx := i, pose_var_idx := p\<rparr>) sol'
        = solve_ik_result a sol'
    \<and> (\<forall>f \<in> set (factors (solve_ik_call a :: ('rc, 'cg) solve_call)).
          factor_joint_var f = Var (JointVar a) (joint_var_idx a))
    \<and> (joint_var_idx a \<noteq> 0 \<longrightarrow>
          Var (JointVar a) 0
            \<notin> factor_joint_var ` set (factors (solve_ik_call a :: ('rc, 'cg) solve_call)))
    \<and> (\<forall>f \<in> set (factors (solve_ik_call a :: ('rc, 'cg) solve_call)).
          factor_kind f = PoseMatch \<longrightarrow>
          factor_base_var f = (ConstrainedSE3Var a, pose_var_idx a))
    \<and> (pose_var_idx a \<noteq> Some 0 \<longrightarrow>
          (\<forall>C. (Some C, Some 0)
             \<notin> factor_base_var ` set (factors (solve_ik_call a :: ('rc, 'cg) solve_call))))"
  by (auto simp: solve_ik_def solve_ik_outcome_def solve_ik_result_def solve_ik_call_def
      solve_ik_factors_def split: sum.splits if_splits)

text \<open>The theorem at the call of the three-joint arm, whose joint variable has index 4
  and starts at the zero configuration: with the engine that answers with the initial
  values, the joints returned are the default \<open>[1, 1, 1]\<close> of the variable type, which is
  what that engine holds for index 0.\<close>

theorem solve_ik_reads_index_zero_witness:
  "jit_args_ok arm3_call
   \<and> solve_ik (initial_values_engine :: (nat, nat, unit) engine) arm3_call
     = Inr (SE3Val SE3_identity, ArrayVal [1, 1, 1])
   \<and> map_of (initial_vals (solve_ik_call arm3_call :: (nat, nat) solve_call))
        (Var (JointVar arm3_call) (joint_var_idx arm3_call)) = Some (ArrayVal [0, 0, 0])
   \<and> joint_var_idx arm3_call = 4 \<and> pose_var_idx arm3_call = Some 9"
  using solve_ik_reads_index_zero [where solve = "initial_values_engine :: (nat, nat, unit) engine" and a = arm3_call
         and i = 0 and p = "Some 0"]
  by (simp add: arm3_call_def solve_ik_call_def solve_ik_joint_var_values_def
      VarValues_make_def with_value_def arm2_BaseVar_def arm3_JointVar_def jit_args_ok_def
      in_int32_def initial_values_engine_def solve_ik_def solve_ik_outcome_def
      solve_ik_result_def)

section \<open>Factors of weight zero\<close>

lemma residual_zero:
  assumes "\<forall>w \<in> set (factor_weights f). w = 0"
  shows "\<forall>r \<in> set (residual srv f q b). r = 0"
proof (cases f)
  case (limit_cost_factor V i k w)
  with assms show ?thesis by (auto simp: scaled_def dest!: set_zip_leftD)
next
  case (limit_vel_cost_factor V i k step w p)
  with assms show ?thesis by (auto simp: scaled_def dest!: set_zip_leftD)
next
  case (rest_cost_factor V i w)
  with assms show ?thesis by (auto simp: scaled_def dest!: set_zip_leftD)
next
  case (ik_cost_factor V i k T js w B bi)
  with assms show ?thesis by (auto simp: scaled_def dest!: set_zip_leftD)
next
  case (manipulability_cost_factor V i k js w)
  with assms show ?thesis by (auto simp: scaled_def)
next
  case (self_coll_factor V i k rc eta w)
  with assms show ?thesis by (auto simp: scaled_def)
next
  case (world_coll_factor V i k rc cg eta w)
  with assms show ?thesis by (auto simp: scaled_def)
qed

lemma sum_of_squares_zero:
  "\<forall>r \<in> set rs. r = (0::real) \<Longrightarrow> (\<Sum>r \<leftarrow> rs. r\<^sup>2) = 0"
  by (induction rs) auto

lemma default_vel_weights_zero:
  assumes "joint_vel_weight a = 0"
    and "g \<in> set (factors (solve_ik_call a))"
    and "factor_kind g = JointVelLimit"
  shows "\<forall>w \<in> set (factor_weights g). w = 0"
  using assms by (auto simp: solve_ik_call_def solve_ik_factors_def split: if_splits)

text \<open>
  C9. A factor of any of the seven kinds whose weights are all 0 has the zero residual
  vector, and so the cost 0, at every configuration and base pose and for every answer
  of the kinematic model and of the collision queries. The default of \<^verbatim>\<open>joint_vel_weight\<close>
  in \<^verbatim>\<open>solve_ik\<close> is 0, and a call of \<^verbatim>\<open>solve_ik\<close> with that weight has a
  joint-velocity-limit factor of residual zero. (Residuals over the reals, as in the
  spec; the values that only floating-point numbers have are not part of the model.)
\<close>

theorem zero_weight_zero_residual:
  "((\<forall>w \<in> set (factor_weights f). w = 0) \<longrightarrow>
      (\<forall>r \<in> set (residual srv f q b). r = 0) \<and> cost srv f q b = 0)
   \<and> joint_vel_weight (solve_ik_defaults k T js q0 V wt) = 0
   \<and> (joint_vel_weight a = 0 \<longrightarrow>
        (\<forall>g \<in> set (factors (solve_ik_call a :: ('rc, 'cg) solve_call)).
           factor_kind g = JointVelLimit \<longrightarrow>
             (\<forall>r \<in> set (residual srv g q b). r = 0) \<and> cost srv g q b = 0))"
proof -
  have zero: "(\<forall>r \<in> set (residual srv h q b). r = 0) \<and> cost srv h q b = 0"
    if "\<forall>w \<in> set (factor_weights h). w = 0" for h :: "('rc, 'cg) Factor"
    using residual_zero [OF that] sum_of_squares_zero unfolding cost_def by blast
  have "joint_vel_weight (solve_ik_defaults k T js q0 V wt) = 0"
    by (simp add: solve_ik_defaults_def)
  with zero default_vel_weights_zero show ?thesis by blast
qed

text \<open>The theorem at a self-collision factor of weight 0 on the two-joint arm, whose
  pairs are at distance 0 and \<open>-1\<close> (the same factor with weight 4 has the residual
  \<open>[1/10, 21/10]\<close>), and at the velocity-limit factor of the arm's default call, ten
  joint-lengths away from the initial configuration.\<close>

theorem zero_weight_zero_residual_witness:
  "residual arm2_services (self_coll_factor arm2_JointVar 0 arm2 0 (1 / 20) 0) [5, 5] None
     = [0, 0]
   \<and> residual arm2_services (self_coll_factor arm2_JointVar 0 arm2 0 (1 / 20) 4) [5, 5] None
     = [1 / 10, 21 / 10]
   \<and> joint_vel_weight arm2_call = 0
   \<and> limit_vel_cost_factor arm2_JointVar 0 arm2 (1 / 100) [0, 0]
         (prev_cfg_keyword [1 / 4, - 1 / 4])
       \<in> set (factors (solve_ik_call arm2_call))
   \<and> residual arm2_services
       (limit_vel_cost_factor arm2_JointVar 0 arm2 (1 / 100) [0, 0]
          (prev_cfg_keyword [1 / 4, - 1 / 4]))
       [5, 5] None = [0, 0]
   \<and> cost arm2_services
       (limit_vel_cost_factor arm2_JointVar 0 arm2 (1 / 100) [0, 0]
          (prev_cfg_keyword [1 / 4, - 1 / 4]))
       [5, 5] None = 0"
  using zero_weight_zero_residual
    [where f = "self_coll_factor arm2_JointVar 0 arm2 0 (1 / 20) 0" and srv = arm2_services
       and q = "[5, 5]" and b = None and a = arm2_call]
  by (simp add: arm2_services_def scaled_def coll_excess_def vel_excess_def arm2_def
      arm2_call_def solve_ik_defaults_def solve_ik_call_def solve_ik_factors_def cost_def
      numeral_2_eq_2)

end
